theory Spec2Isabelle
  imports Complex_Main
begin

section \<open>JavaScript values\<close>

text \<open>
  The front end receives its data as parsed JSON and tests it with JavaScript's
  truthiness. A value is one of the JSON shapes, or \<open>undefined\<close> (what reading an
  absent property gives). Strings are byte strings (UTF-8); numbers are the
  integer-valued ones (line numbers, sizes and counts are all this program reads).
  An object is the list of its properties in insertion order. Every character that the
  program's comparisons and regular expressions name is ASCII, and the character
  classes and \<open>toLowerCase\<close> are given on ASCII: the white space, line separators and
  capital letters of Unicode beyond it are outside the model.
\<close>

datatype js =
    Undefined
  | Null
  | Bool bool
  | Num int
  | Str string
  | Arr "js list"
  | Obj "(string \<times> js) list"

datatype js_error = TypeError | SyntaxError | ReactChildError

fun truthy :: "js \<Rightarrow> bool" where
  "truthy Undefined = False"
| "truthy Null = False"
| "truthy (Bool b) = b"
| "truthy (Num n) = (n \<noteq> 0)"
| "truthy (Str s) = (s \<noteq> [])"
| "truthy (Arr xs) = True"
| "truthy (Obj kvs) = True"

text \<open>
  \<open>v.name\<close> for a property name that no prototype defines (\<open>message\<close>, \<open>type\<close>,
  \<open>line\<close>, \<open>code\<close>, \<open>error\<close>, \<open>suggestions\<close>, ...): reading it from \<open>null\<close> or
  \<open>undefined\<close> throws, an object gives its own property, anything else \<open>undefined\<close>.
\<close>

fun get_prop :: "js \<Rightarrow> string \<Rightarrow> js_error + js" where
  "get_prop Undefined k = Inl TypeError"
| "get_prop Null k = Inl TypeError"
| "get_prop (Obj kvs) k = Inr (case map_of kvs k of Some v \<Rightarrow> v | None \<Rightarrow> Undefined)"
| "get_prop v k = Inr Undefined"

text \<open>\<open>a || b\<close> on values.\<close>

definition js_or :: "js \<Rightarrow> js \<Rightarrow> js" where
  "js_or a b = (if truthy a then a else b)"

subsection \<open>Numbers and strings as text\<close>

definition digit :: "nat \<Rightarrow> char" where
  "digit d = char_of (48 + d)"

fun show_nat :: "nat \<Rightarrow> string" where
  "show_nat n = (if n < 10 then [digit n] else show_nat (n div 10) @ [digit (n mod 10)])"

declare show_nat.simps [simp del]

definition show_int :: "int \<Rightarrow> string" where
  "show_int i = (if i < 0 then CHR ''-'' # show_nat (nat (- i)) else show_nat (nat i))"

fun join :: "string \<Rightarrow> string list \<Rightarrow> string" where
  "join sep [] = []"
| "join sep [x] = x"
| "join sep (x # y # ys) = x @ sep @ join sep (y # ys)"

definition hex_digit :: "nat \<Rightarrow> char" where
  "hex_digit d = (if d < 10 then char_of (48 + d) else char_of (87 + d))"

text \<open>\<open>JSON.stringify\<close>: the quoting of a string.\<close>

definition quote_char :: "char \<Rightarrow> string" where
  "quote_char c =
     (if c = CHR 0x22 then [CHR 0x5C, CHR 0x22]
      else if c = CHR 0x5C then [CHR 0x5C, CHR 0x5C]
      else if c = CHR 0x08 then [CHR 0x5C, CHR ''b'']
      else if c = CHR 0x0C then [CHR 0x5C, CHR ''f'']
      else if c = CHR 0x0A then [CHR 0x5C, CHR ''n'']
      else if c = CHR 0x0D then [CHR 0x5C, CHR ''r'']
      else if c = CHR 0x09 then [CHR 0x5C, CHR ''t'']
      else if (of_char c :: nat) < 32
        then [CHR 0x5C, CHR ''u'', CHR ''0'', CHR ''0'',
              hex_digit ((of_char c :: nat) div 16), hex_digit ((of_char c :: nat) mod 16)]
      else [c])"

definition quote :: "string \<Rightarrow> string" where
  "quote s = [CHR 0x22] @ concat (map quote_char s) @ [CHR 0x22]"

text \<open>
  \<open>JSON.stringify\<close> inside a structure: \<open>undefined\<close> is \<open>null\<close> in an array, and a
  property whose value is \<open>undefined\<close> is left out of an object.
\<close>

fun stringify_in :: "js \<Rightarrow> string" where
  "stringify_in Undefined = ''null''"
| "stringify_in Null = ''null''"
| "stringify_in (Bool b) = (if b then ''true'' else ''false'')"
| "stringify_in (Num n) = show_int n"
| "stringify_in (Str s) = quote s"
| "stringify_in (Arr xs) = ''['' @ join '','' (map stringify_in xs) @ '']''"
| "stringify_in (Obj kvs) =
     ''{'' @ join '',''
        (map (\<lambda>(k, v). quote k @ '':'' @ stringify_in v)
             (filter (\<lambda>(k, v). v \<noteq> Undefined) kvs)) @ ''}''"

text \<open>At top level \<open>JSON.stringify(undefined)\<close> is \<open>undefined\<close>, not a string.\<close>

definition JSON_stringify :: "js \<Rightarrow> js" where
  "JSON_stringify v = (if v = Undefined then Undefined else Str (stringify_in v))"

text \<open>Sequencing of computations that may throw.\<close>

definition bind_err :: "js_error + 'a \<Rightarrow> ('a \<Rightarrow> js_error + 'b) \<Rightarrow> js_error + 'b" where
  "bind_err m f = (case m of Inl e \<Rightarrow> Inl e | Inr x \<Rightarrow> f x)"

fun sequence_err :: "(js_error + 'a) list \<Rightarrow> js_error + 'a list" where
  "sequence_err [] = Inr []"
| "sequence_err (m # ms) =
     bind_err m (\<lambda>x. bind_err (sequence_err ms) (\<lambda>xs. Inr (x # xs)))"

text \<open>\<open>String.prototype.toLowerCase\<close>, on the ASCII letters; other bytes stay.\<close>

definition lower_char :: "char \<Rightarrow> char" where
  "lower_char c =
     (if 65 \<le> (of_char c :: nat) \<and> (of_char c :: nat) \<le> 90
      then char_of ((of_char c :: nat) + 32) else c)"

definition toLowerCase :: "string \<Rightarrow> string" where
  "toLowerCase s = map lower_char s"

text \<open>\<open>v.toLowerCase()\<close> on a value: only a string has the method.\<close>

fun js_toLowerCase :: "js \<Rightarrow> js_error + string" where
  "js_toLowerCase (Str s) = Inr (toLowerCase s)"
| "js_toLowerCase v = Inl TypeError"

section \<open>The suggestions panel (Suggestions component)\<close>

datatype icon = WarningIcon | ErrorIcon | InfoIcon | CheckIcon

text \<open>\<open>getSuggestionIcon\<close>: \<open>switch (type?.toLowerCase())\<close> with a default case.\<close>

fun getSuggestionIcon :: "js \<Rightarrow> js_error + icon" where
  "getSuggestionIcon Undefined = Inr CheckIcon"
| "getSuggestionIcon Null = Inr CheckIcon"
| "getSuggestionIcon (Str s) =
     (let t = toLowerCase s in
      if t = ''warning'' then Inr WarningIcon
      else if t = ''error'' then Inr ErrorIcon
      else if t = ''info'' then Inr InfoIcon
      else Inr CheckIcon)"
| "getSuggestionIcon v = Inl TypeError"

text \<open>
  \<open>formatSuggestion\<close>: a string as it is; otherwise the \<open>message\<close> property when it
  is truthy; otherwise \<open>JSON.stringify\<close> of the whole value.
\<close>

definition formatSuggestion :: "js \<Rightarrow> js_error + js" where
  "formatSuggestion suggestion =
     (case suggestion of
        Str s \<Rightarrow> Inr (Str s)
      | _ \<Rightarrow> bind_err (get_prop suggestion ''message'')
               (\<lambda>m. if truthy m then Inr m else Inr (JSON_stringify suggestion)))"

text \<open>
  What React shows for a value placed among an element's children: nothing for
  \<open>null\<close>, \<open>undefined\<close> and booleans, the text of a number or string, the children
  of an array in order; a plain object is refused with an error.
\<close>

fun react_child :: "js \<Rightarrow> js_error + string" where
  "react_child Undefined = Inr []"
| "react_child Null = Inr []"
| "react_child (Bool b) = Inr []"
| "react_child (Num n) = Inr (show_int n)"
| "react_child (Str s) = Inr s"
| "react_child (Arr xs) = bind_err (sequence_err (map react_child xs)) (\<lambda>ts. Inr (concat ts))"
| "react_child (Obj kvs) = Inl ReactChildError"

text \<open>
  A slot of the rendered item: an element with its class name and text, a bare text
  node, or nothing.
\<close>

datatype node = NoNode | Txt string | El string string

text \<open>
  \<open>{v && <element/>}\<close>: the element when \<open>v\<close> is truthy, otherwise \<open>v\<close> itself is
  the child, and React shows a falsy number as its text.
\<close>

definition and_then :: "js \<Rightarrow> (js_error + node) \<Rightarrow> js_error + node" where
  "and_then v el =
     (if truthy v then el
      else bind_err (react_child v) (\<lambda>t. Inr (if t = [] then NoNode else Txt t)))"

record item =
  key :: nat
  icon_slot :: icon
  line_slot :: node
  type_slot :: node
  message_text :: string
  code_slot :: node

definition render_item :: "nat \<Rightarrow> js \<Rightarrow> js_error + item" where
  "render_item index suggestion =
     bind_err (get_prop suggestion ''type'') (\<lambda>t.
     bind_err (getSuggestionIcon (js_or t (Str ''suggestion''))) (\<lambda>ic.
     bind_err (get_prop suggestion ''line'') (\<lambda>ln.
     bind_err (and_then ln
        (bind_err (react_child ln) (\<lambda>txt. Inr (El ''suggestion-line'' (''Line '' @ txt))))) (\<lambda>ls.
     bind_err (and_then t
        (bind_err (js_toLowerCase t) (\<lambda>lc.
         bind_err (react_child t) (\<lambda>txt. Inr (El (''suggestion-type '' @ lc) txt))))) (\<lambda>ts.
     bind_err (formatSuggestion suggestion) (\<lambda>m.
     bind_err (react_child m) (\<lambda>mt.
     bind_err (get_prop suggestion ''code'') (\<lambda>c.
     bind_err (and_then c
        (bind_err (react_child c) (\<lambda>txt. Inr (El ''suggestion-code'' txt)))) (\<lambda>cs.
     Inr \<lparr>key = index, icon_slot = ic, line_slot = ls, type_slot = ts,
          message_text = mt, code_slot = cs\<rparr>)))))))))"

datatype body = Skeleton | SuggestionList "item list" | DefaultContent

record panel =
  count_badge :: "string option"
  panel_body :: body

text \<open>\<open>suggestions.length\<close>: arrays and strings have one.\<close>

fun js_length :: "js \<Rightarrow> js_error + nat option" where
  "js_length Undefined = Inl TypeError"
| "js_length Null = Inl TypeError"
| "js_length (Arr xs) = Inr (Some (length xs))"
| "js_length (Str s) = Inr (Some (length s))"
| "js_length v = Inr None"

text \<open>\<open>suggestions.map((suggestion, index) => ...)\<close>: only an array has \<open>map\<close>.\<close>

fun map_items :: "js \<Rightarrow> js_error + item list" where
  "map_items (Arr xs) = sequence_err (map (\<lambda>(i, s). render_item i s) (enumerate 0 xs))"
| "map_items v = Inl TypeError"

text \<open>
  The component itself. \<open>undefined > 0\<close> is false, so a value without a length
  takes the branches of the empty list.
\<close>

definition Suggestions :: "js \<Rightarrow> bool \<Rightarrow> js_error + panel" where
  "Suggestions suggestions isLoading =
     bind_err (js_length suggestions) (\<lambda>len.
       let positive = (case len of Some n \<Rightarrow> 0 < n | None \<Rightarrow> False);
           badge = (case len of
                      Some n \<Rightarrow>
                        if 0 < n
                        then Some (show_nat n @ '' '' @
                                   (if n = 1 then ''suggestion'' else ''suggestions''))
                        else None
                    | None \<Rightarrow> None)
       in bind_err
            (if isLoading then Inr Skeleton
             else if positive then bind_err (map_items suggestions) (\<lambda>is. Inr (SuggestionList is))
             else Inr DefaultContent)
            (\<lambda>b. Inr \<lparr>count_badge = badge, panel_body = b\<rparr>))"

section \<open>The Suggestion record\<close>

text \<open>
  Modelled from the spec: the Suggestion record of the data model (section 3) and the
  JSON object by which it reaches the front end. The back end that builds the records is
  not among the sources; the panel above reads the properties \<open>type\<close>, \<open>line\<close>,
  \<open>message\<close> and \<open>code\<close>. An absent optional field is an absent property.
\<close>

datatype severity = Warning | Error | Info | Style

record Suggestion =
  type :: severity
  line :: "nat option"
  message :: string
  code :: "string option"

fun severity_name :: "severity \<Rightarrow> string" where
  "severity_name Warning = ''warning''"
| "severity_name Error = ''error''"
| "severity_name Info = ''info''"
| "severity_name Style = ''style''"

definition suggestion_js :: "Suggestion \<Rightarrow> js" where
  "suggestion_js s =
     Obj ([(''type'', Str (severity_name (type s)))]
          @ (case line s of Some n \<Rightarrow> [(''line'', Num (int n))] | None \<Rightarrow> [])
          @ [(''message'', Str (message s))]
          @ (case code s of Some c \<Rightarrow> [(''code'', Str c)] | None \<Rightarrow> []))"

section \<open>The Suggestion Engine\<close>

text \<open>
  Modelled from the spec: the Suggestion Engine (sections 3 and 4.4), whose code is not
  among the sources. Each rule of the registry is a function from the source unit to a
  sequence of suggestions; the results of all rules are merged and sorted once, by
  source line, ties broken by severity rank (error > warning > info > style). The spec
  does not say where a suggestion without a line goes; here it goes before the
  numbered ones.
\<close>

fun rank :: "severity \<Rightarrow> nat" where
  "rank Error = 3"
| "rank Warning = 2"
| "rank Info = 1"
| "rank Style = 0"

definition line_key :: "Suggestion \<Rightarrow> nat" where
  "line_key s = (case line s of None \<Rightarrow> 0 | Some n \<Rightarrow> Suc n)"

definition before_eq :: "Suggestion \<Rightarrow> Suggestion \<Rightarrow> bool" where
  "before_eq a b =
     (line_key a < line_key b \<or> (line_key a = line_key b \<and> rank (type b) \<le> rank (type a)))"

fun insert_suggestion :: "Suggestion \<Rightarrow> Suggestion list \<Rightarrow> Suggestion list" where
  "insert_suggestion s [] = [s]"
| "insert_suggestion s (x # xs) =
     (if before_eq s x then s # x # xs else x # insert_suggestion s xs)"

fun sort_suggestions :: "Suggestion list \<Rightarrow> Suggestion list" where
  "sort_suggestions [] = []"
| "sort_suggestions (x # xs) = insert_suggestion x (sort_suggestions xs)"

definition analyze :: "('u \<Rightarrow> Suggestion list) list \<Rightarrow> 'u \<Rightarrow> Suggestion list" where
  "analyze rules unit = sort_suggestions (concat (map (\<lambda>rule. rule unit) rules))"

section \<open>The application state (App component)\<close>

text \<open>
  A file as the browser hands it over: its name and its text. A request either fails
  in transport, or gives a response with its \<open>ok\<close> flag and its body, \<open>None\<close> when
  the body is not JSON (then \<open>response.json()\<close> throws).
\<close>

record file_obj =
  fname :: string
  fcontent :: string

datatype fetch_result = NetworkFailure | Response bool "js option"

record app_state =
  uploadedFile :: "file_obj option"
  generatedDocs :: js
  suggestions :: js
  language :: js
  isLoading :: bool
  refreshRecentFiles :: nat

definition initial_state :: app_state where
  "initial_state =
     \<lparr>uploadedFile = None, generatedDocs = Str [], suggestions = Arr [],
      language = Str [], isLoading = False, refreshRecentFiles = 0\<rparr>"

text \<open>
  \<open>generateSuggestions\<close>: the request to \<open>/suggest/\<close>. The state is set to the
  \<open>suggestions\<close> property when that is truthy; the \<open>catch\<close> branch (transport
  failure, a body that is not JSON, a body that is \<open>null\<close>) sets the empty list.
\<close>

definition generateSuggestions ::
  "(file_obj \<Rightarrow> fetch_result) \<Rightarrow> file_obj \<Rightarrow> app_state \<Rightarrow> app_state" where
  "generateSuggestions suggest file st =
     (case suggest file of
        NetworkFailure \<Rightarrow> st\<lparr>suggestions := Arr []\<rparr>
      | Response ok None \<Rightarrow> st\<lparr>suggestions := Arr []\<rparr>
      | Response ok (Some data) \<Rightarrow>
          (case get_prop data ''suggestions'' of
             Inl e \<Rightarrow> st\<lparr>suggestions := Arr []\<rparr>
           | Inr v \<Rightarrow> if truthy v then st\<lparr>suggestions := v\<rparr> else st))"

text \<open>\<open>handleFileUpload\<close>, which the upload box and the recent-files list both call.\<close>

definition handleFileUpload ::
  "(file_obj \<Rightarrow> fetch_result) \<Rightarrow> file_obj \<Rightarrow> js \<Rightarrow> js \<Rightarrow> app_state \<Rightarrow> app_state" where
  "handleFileUpload suggest file docs lang st =
     (let st1 = st\<lparr>uploadedFile := Some file, generatedDocs := docs, language := lang\<rparr>;
          st2 = generateSuggestions suggest file st1
      in st2\<lparr>refreshRecentFiles := refreshRecentFiles st2 + 1\<rparr>)"

definition handleLoading :: "bool \<Rightarrow> app_state \<Rightarrow> app_state" where
  "handleLoading loading st = st\<lparr>isLoading := loading\<rparr>"

text \<open>The panel as the application shows it.\<close>

definition suggestions_section :: "app_state \<Rightarrow> js_error + panel" where
  "suggestions_section st = Suggestions (suggestions st) (isLoading st)"

section \<open>The upload box (CodeUpload component)\<close>

text \<open>\<open>String(v)\<close>, as a template literal or a \<open>Blob\<close> part converts a value.\<close>

fun js_to_string :: "js \<Rightarrow> string" where
  "js_to_string Undefined = ''undefined''"
| "js_to_string Null = ''null''"
| "js_to_string (Bool b) = (if b then ''true'' else ''false'')"
| "js_to_string (Num n) = show_int n"
| "js_to_string (Str s) = s"
| "js_to_string (Arr xs) =
     join '','' (map (\<lambda>x. if x = Null \<or> x = Undefined then [] else js_to_string x) xs)"
| "js_to_string (Obj kvs) = ''[object Object]''"

text \<open>
  What \<open>axios.post\<close> gives: the body of a response with a 2xx status, or a rejection
  with the fields of the error object that the handler reads (\<open>error.code\<close>,
  \<open>error.response\<close> with its data and status text, \<open>error.request\<close>,
  \<open>error.message\<close>).
\<close>

record axios_error =
  err_code :: "string option"
  err_response :: "(js \<times> string) option"
  err_request :: bool
  err_message :: string

datatype axios_result = Rejected axios_error | Resolved js

record upload_state =
  dragActive :: bool
  error :: js

text \<open>
  The \<open>.py,.java,.js,.jsx\<close> of the file input, and the list that the browser's file
  chooser reads from it.
\<close>

definition accept :: string where
  "accept = ''.py,.java,.js,.jsx''"

fun split_on :: "char \<Rightarrow> string \<Rightarrow> string list" where
  "split_on c [] = [[]]"
| "split_on c (x # xs) =
     (if x = c then [] # split_on c xs
      else (case split_on c xs of y # ys \<Rightarrow> (x # y) # ys | [] \<Rightarrow> [[x]]))"

definition accepted_suffixes :: "string list" where
  "accepted_suffixes = split_on CHR '','' accept"

text \<open>The \<open>catch\<close> branch of \<open>handleFiles\<close>: the text it reports.\<close>

definition catch_text :: "axios_error \<Rightarrow> js" where
  "catch_text e =
     (if err_code e = Some ''ERR_NETWORK''
      then Str ''Cannot connect to server. Please ensure the backend server is running on http://localhost:8000''
      else case err_response e of
        Some (data, statusText) \<Rightarrow>
          Str (''Server error: '' @
               js_to_string (js_or (case get_prop data ''message'' of Inl x \<Rightarrow> Undefined | Inr m \<Rightarrow> m)
                                   (Str statusText)))
      | None \<Rightarrow>
          if err_request e
          then Str ''No response from server. Please check if the backend is running and CORS is configured.''
          else Str (''Upload failed: '' @ err_message e))"

text \<open>
  A TypeError thrown inside the \<open>try\<close> block is caught by the same branch; it has no
  \<open>code\<close>, \<open>response\<close> or \<open>request\<close>, and its message is the engine's.
\<close>

definition thrown_TypeError :: "string \<Rightarrow> axios_error" where
  "thrown_TypeError msg =
     \<lparr>err_code = None, err_response = None, err_request = False, err_message = msg\<rparr>"

text \<open>
  \<open>handleFiles\<close>, on the state of the upload box and of the application. \<open>post\<close>
  answers the request to \<open>/parse-code/\<close>, \<open>suggest\<close> the one to \<open>/suggest/\<close>;
  \<open>onFileUpload\<close> is the application's \<open>handleFileUpload\<close>, \<open>onLoading\<close> its
  \<open>handleLoading\<close>.
\<close>

definition handleFiles ::
  "(file_obj \<Rightarrow> axios_result) \<Rightarrow> (file_obj \<Rightarrow> fetch_result) \<Rightarrow> string
     \<Rightarrow> file_obj list \<Rightarrow> upload_state \<times> app_state \<Rightarrow> upload_state \<times> app_state" where
  "handleFiles post suggest engine_msg files ua =
     (case files of
        [] \<Rightarrow> ua
      | file # rest \<Rightarrow>
          let u1 = (fst ua)\<lparr>error := Str []\<rparr>;
              a1 = handleLoading True (snd ua);
              (u2, a2) =
                (case post file of
                   Rejected e \<Rightarrow> (u1\<lparr>error := catch_text e\<rparr>, a1)
                 | Resolved data \<Rightarrow>
                     (case get_prop data ''error'' of
                        Inl x \<Rightarrow> (u1\<lparr>error := catch_text (thrown_TypeError engine_msg)\<rparr>, a1)
                      | Inr er \<Rightarrow>
                          if truthy er
                          then (u1\<lparr>error := js_or (case get_prop data ''message'' of
                                                       Inl x \<Rightarrow> Undefined | Inr m \<Rightarrow> m)
                                                    (Str ''Error processing file'')\<rparr>, a1)
                          else (u1, handleFileUpload suggest file
                                      (case get_prop data ''markdown_content'' of
                                         Inl x \<Rightarrow> Undefined | Inr m \<Rightarrow> m)
                                      (case get_prop data ''language'' of
                                         Inl x \<Rightarrow> Undefined | Inr m \<Rightarrow> m) a1)))
          in (u2, handleLoading False a2))"

text \<open>The error line under the box: \<open>{error && <div ...><span>{error}</span></div>}\<close>.\<close>

definition error_view :: "upload_state \<Rightarrow> js_error + node" where
  "error_view u =
     and_then (error u)
       (bind_err (react_child (error u)) (\<lambda>t. Inr (El ''error-message-horizontal'' t)))"

section \<open>The recent-files list (RecentFiles component)\<close>

record recent_file =
  file_id :: string
  filename :: string
  file_size :: nat
  upload_time :: string
  file_language :: string
  file_type :: string

datatype request = Download string | GetFile string | ParseCode file_obj

text \<open>What a click does, in order: requests sent, alerts, console errors, the file
  saved by the download link, and the call of \<open>onFileSelect\<close>.\<close>

datatype event =
    Fetch request
  | Alert string
  | ConsoleError string
  | SaveAs string
  | FileSelect file_obj js js

text \<open>\<open>filename.split('.').pop().toLowerCase()\<close>; \<open>split\<close> never gives an empty
  array, so \<open>pop\<close> gives its last element.\<close>

definition extension_of :: "string \<Rightarrow> string" where
  "extension_of name = toLowerCase (last (split_on CHR ''.'' name))"

definition supported_extensions :: "string list" where
  "supported_extensions = [''py'', ''java'', ''js'', ''jsx'']"

text \<open>\<open>getFileType\<close>, called on a property of the response: only a string has \<open>split\<close>.\<close>

fun getFileType :: "js \<Rightarrow> js_error + string" where
  "getFileType (Str name) =
     (let ext = extension_of name in
      if ext = ''py'' then Inr ''text/x-python''
      else if ext = ''java'' then Inr ''text/x-java''
      else if ext = ''js'' \<or> ext = ''jsx'' then Inr ''text/javascript''
      else Inr ''text/plain'')"
| "getFileType v = Inl TypeError"

text \<open>The \<open>File\<close> object built from the cached content.\<close>

definition cached_file :: "js \<Rightarrow> js_error + file_obj" where
  "cached_file data =
     bind_err (get_prop data ''content'') (\<lambda>c.
     bind_err (get_prop data ''file_content'') (\<lambda>fc.
     bind_err (get_prop data ''filename'') (\<lambda>n.
     bind_err (getFileType n) (\<lambda>ty.
       Inr \<lparr>fname = js_to_string n,
            fcontent = js_to_string (js_or (js_or c fc) (Str []))\<rparr>))))"

definition load_failed :: "event list" where
  "load_failed = [ConsoleError ''Error loading file:'', Alert ''Failed to load file. Please try again.'']"

definition regenerate_failed :: "event list" where
  "regenerate_failed =
     [ConsoleError ''Error regenerating documentation:'',
      Alert ''Failed to regenerate documentation. Please check if the backend server is running.'']"

definition regenerate_refused :: "event list" where
  "regenerate_refused =
     [ConsoleError ''Failed to regenerate documentation:'',
      Alert ''Failed to regenerate documentation. Please try again.'']"

definition handleFileClick :: "(request \<Rightarrow> fetch_result) \<Rightarrow> recent_file \<Rightarrow> event list" where
  "handleFileClick server file =
     (let fileExtension = extension_of (filename file) in
      if fileExtension = ''md'' then
        Fetch (Download (file_id file)) #
        (case server (Download (file_id file)) of
           NetworkFailure \<Rightarrow> load_failed
         | Response ok body \<Rightarrow>
             if ok then [SaveAs (filename file)]
             else [ConsoleError ''Failed to download markdown file''])
      else if fileExtension \<in> set supported_extensions then
        Fetch (GetFile (file_id file)) #
        (case server (GetFile (file_id file)) of
           NetworkFailure \<Rightarrow> load_failed
         | Response ok None \<Rightarrow> load_failed
         | Response ok (Some data) \<Rightarrow>
             if \<not> ok then []
             else (case cached_file data of
                Inl x \<Rightarrow> load_failed
              | Inr fileObject \<Rightarrow>
                  Fetch (ParseCode fileObject) #
                  (case server (ParseCode fileObject) of
                     NetworkFailure \<Rightarrow> regenerate_failed
                   | Response pok None \<Rightarrow> regenerate_failed
                   | Response pok (Some parseData) \<Rightarrow>
                       (case get_prop parseData ''error'' of
                          Inl x \<Rightarrow> regenerate_failed
                        | Inr er \<Rightarrow>
                            if pok \<and> \<not> truthy er
                            then [FileSelect fileObject
                                    (case get_prop parseData ''markdown_content'' of
                                       Inl x \<Rightarrow> Undefined | Inr m \<Rightarrow> m)
                                    (case get_prop parseData ''language'' of
                                       Inl x \<Rightarrow> Undefined | Inr m \<Rightarrow> m)]
                            else regenerate_refused))))
      else [Alert (''File type .'' @ fileExtension @
                   '' is not supported for documentation generation.'')])"

subsection \<open>File sizes\<close>







section \<open>The dashboard (Dashboard component)\<close>

subsection \<open>Global regular-expression matching\<close>

text \<open>
  The character classes \<open>\s\<close> and \<open>\w\<close>, on the ASCII characters.
\<close>

definition is_space :: "char \<Rightarrow> bool" where
  "is_space c = (c \<in> {CHR 0x09, CHR 0x0A, CHR 0x0B, CHR 0x0C, CHR 0x0D, CHR 0x20})"

definition is_word :: "char \<Rightarrow> bool" where
  "is_word c =
     (let n = (of_char c :: nat)
      in (48 \<le> n \<and> n \<le> 57) \<or> (65 \<le> n \<and> n \<le> 90) \<or> n = 95 \<or> (97 \<le> n \<and> n \<le> 122))"

text \<open>
  A matcher tries the pattern at the start of the text and gives the length of the
  match. \<open>match_keyword kw\<close> is the pattern \<open>kw\s+\w+\<close>: both runs are greedy and
  the classes are disjoint, so the match, when there is one, takes all the white space
  and then all the word characters that follow.
\<close>

definition match_keyword :: "string \<Rightarrow> string \<Rightarrow> nat option" where
  "match_keyword kw s =
     (if take (length kw) s = kw
      then let r1 = drop (length kw) s;
               spaces = takeWhile is_space r1;
               word = takeWhile is_word (dropWhile is_space r1)
           in if spaces \<noteq> [] \<and> word \<noteq> []
              then Some (length kw + length spaces + length word) else None
      else None)"

definition match_literal :: "string \<Rightarrow> string \<Rightarrow> nat option" where
  "match_literal lit s = (if take (length lit) s = lit then Some (length lit) else None)"

text \<open>
  \<open>(text.match(/pattern/g) || []).length\<close>: the matches are found from left to
  right, each search starting where the last match ended. \<open>count_from m skip s\<close> has
  \<open>skip\<close> characters of the last match still to pass; an empty match moves on by one
  character.
\<close>

fun count_from :: "(string \<Rightarrow> nat option) \<Rightarrow> nat \<Rightarrow> string \<Rightarrow> nat" where
  "count_from m skip [] = 0"
| "count_from m (Suc k) (c # cs) = count_from m k cs"
| "count_from m 0 (c # cs) =
     (case m (c # cs) of
        None \<Rightarrow> count_from m 0 cs
      | Some n \<Rightarrow> Suc (count_from m (n - 1) cs))"

definition count_matches :: "(string \<Rightarrow> nat option) \<Rightarrow> string \<Rightarrow> nat" where
  "count_matches m s = count_from m 0 s"

subsection \<open>Double-precision arithmetic\<close>

text \<open>
  The percentage is computed in double precision, and the rounding of the operations
  decides which whole number \<open>Math.round\<close> gives. A double that is not negative is
  written \<open>(n, k)\<close> for the value \<open>n / 2 ^ k\<close>.
\<close>

type_synonym double = "nat \<times> nat"

fun bit_length :: "nat \<Rightarrow> nat" where
  "bit_length n = (if n = 0 then 0 else Suc (bit_length (n div 2)))"

declare bit_length.simps [simp del]

text \<open>The whole number nearest to \<open>n / d\<close>, the even one at a tie.\<close>

definition nearest_even :: "nat \<Rightarrow> nat \<Rightarrow> nat" where
  "nearest_even n d =
     (let q = n div d; r = n mod d
      in if 2 * r < d then q
         else if d < 2 * r then q + 1
         else if even q then q else q + 1)"

text \<open>
  \<open>a / b\<close> for two whole numbers below \<open>2 ^ 53\<close> (every count of matches in a
  string is): the quotient is scaled by the power of two that brings it into
  \<open>[2 ^ 52, 2 ^ 53)\<close> and rounded there, which leaves 53 significant bits.
\<close>

definition fdiv :: "nat \<Rightarrow> nat \<Rightarrow> double" where
  "fdiv a b =
     (if a = 0 then (0, 0)
      else let k0 = 52 + bit_length b - bit_length a;
               k = (if 2 ^ 52 * b \<le> a * 2 ^ k0 then k0 else k0 + 1)
           in (nearest_even (a * 2 ^ k) b, k))"

text \<open>Rounding an exact value \<open>p / 2 ^ k\<close> to 53 significant bits.\<close>

definition round53 :: "nat \<Rightarrow> nat \<Rightarrow> double" where
  "round53 p k =
     (let s = bit_length p - 53
      in if s = 0 then (p, k)
         else if s \<le> k then (nearest_even p (2 ^ s), k - s)
         else (nearest_even p (2 ^ s) * 2 ^ (s - k), 0))"

definition fmul :: "double \<Rightarrow> double \<Rightarrow> double" where
  "fmul x y = round53 (fst x * fst y) (snd x + snd y)"

definition double_of_nat :: "nat \<Rightarrow> double" where
  "double_of_nat n = (n, 0)"

text \<open>\<open>Math.round\<close>: the nearest whole number, the larger one at a tie.\<close>

definition Math_round :: "double \<Rightarrow> nat" where
  "Math_round x = (2 * fst x + 2 ^ snd x) div (2 * 2 ^ snd x)"

subsection \<open>The component\<close>

record stats =
  totalFunctions :: nat
  documentedFunctions :: nat
  totalClasses :: nat
  documentedClasses :: nat

record dashboard_state =
  coverage :: nat
  stats :: stats

definition dashboard_initial :: dashboard_state where
  "dashboard_initial =
     \<lparr>coverage = 75,
      stats = \<lparr>totalFunctions = 0, documentedFunctions = 0, totalClasses = 0,
               documentedClasses = 0\<rparr>\<rparr>"

definition count_functions :: "string \<Rightarrow> nat" where
  "count_functions docs = count_matches (match_keyword ''def'') docs"

definition count_classes :: "string \<Rightarrow> nat" where
  "count_classes docs = count_matches (match_keyword ''class'') docs"

definition count_docstrings :: "string \<Rightarrow> nat" where
  "count_docstrings docs = count_matches (match_literal ''Docstring:'') docs"

definition calculateCoverage :: "string \<Rightarrow> dashboard_state" where
  "calculateCoverage docs =
     (let functions = count_functions docs;
          classes = count_classes docs;
          docstrings = count_docstrings docs;
          totalItems = functions + classes;
          documentedItems = min docstrings totalItems;
          calculatedCoverage =
            (if 0 < totalItems
             then Math_round (fmul (fdiv documentedItems totalItems) (double_of_nat 100))
             else 75)
      in \<lparr>coverage = calculatedCoverage,
          stats = \<lparr>totalFunctions = functions,
                   documentedFunctions = min docstrings functions,
                   totalClasses = classes,
                   documentedClasses = min docstrings classes\<rparr>\<rparr>)"

text \<open>
  The effect that runs when the \<open>generatedDocs\<close> property changes: nothing for a falsy
  value; only a
  string has \<open>match\<close>.
\<close>

definition dashboard_effect :: "js \<Rightarrow> dashboard_state \<Rightarrow> js_error + dashboard_state" where
  "dashboard_effect docs_prop st =
     (if \<not> truthy docs_prop then Inr st
      else case docs_prop of
        Str docs \<Rightarrow> Inr (calculateCoverage docs)
      | _ \<Rightarrow> Inl TypeError)"

text \<open>
  The percentage as the specification states it, for comparison with the code:
  \<open>round(100 * min(markerCount, defCount + classCount) / (defCount + classCount))\<close> in
  exact arithmetic, \<open>round\<close> giving the nearest whole number and the larger one at a
  tie.
\<close>

definition spec_coverage :: "nat \<Rightarrow> nat \<Rightarrow> nat \<Rightarrow> nat" where
  "spec_coverage markerCount defCount classCount =
     nat \<lfloor>100 * rat_of_nat (min markerCount (defCount + classCount))
            / rat_of_nat (defCount + classCount) + 1 / 2\<rfloor>"

section \<open>The documentation panel (Documentation component)\<close>

subsection \<open>Global replacement\<close>

text \<open>
  The line terminators, which \<open>.\<close> does not match and around which \<open>^\<close> and \<open>$\<close>
  match under the \<open>m\<close> flag.
\<close>

definition is_line_terminator :: "char \<Rightarrow> bool" where
  "is_line_terminator c = (c = CHR 0x0A \<or> c = CHR 0x0D)"

text \<open>
  \<open>text.replace(/pattern/g, replacement)\<close>. A matcher is told whether the position is
  the start of a line and gives the text that replaces the match together with the
  length of the match. The text is scanned from left to right; \<open>skip\<close> counts the
  characters of the last match still to pass.
\<close>

fun replace_from ::
  "(bool \<Rightarrow> string \<Rightarrow> (string \<times> nat) option) \<Rightarrow> bool \<Rightarrow> nat \<Rightarrow> string \<Rightarrow> string" where
  "replace_from m bol skip [] = []"
| "replace_from m bol (Suc k) (c # cs) = replace_from m (is_line_terminator c) k cs"
| "replace_from m bol 0 (c # cs) =
     (case m bol (c # cs) of
        None \<Rightarrow> c # replace_from m (is_line_terminator c) 0 cs
      | Some (out, n) \<Rightarrow>
          if n = 0 then out @ c # replace_from m (is_line_terminator c) 0 cs
          else out @ replace_from m (is_line_terminator c) (n - 1) cs)"

definition replace_all :: "(bool \<Rightarrow> string \<Rightarrow> (string \<times> nat) option) \<Rightarrow> string \<Rightarrow> string" where
  "replace_all m s = replace_from m True 0 s"

text \<open>
  \<open>/^prefix(.*$)/gm\<close> with the replacement \<open>opening$1closing\<close>: at the start of a line
  that begins with the prefix, the rest of the line is the group.
\<close>

definition line_pattern ::
  "string \<Rightarrow> string \<Rightarrow> string \<Rightarrow> bool \<Rightarrow> string \<Rightarrow> (string \<times> nat) option" where
  "line_pattern prefix opening closing bol s =
     (if bol \<and> take (length prefix) s = prefix
      then let captured = takeWhile (\<lambda>c. \<not> is_line_terminator c) (drop (length prefix) s)
           in Some (opening @ captured @ closing, length prefix + length captured)
      else None)"

text \<open>
  The lazy group of \<open>/delim(.*?)delim/g\<close>: the shortest run of characters of one line
  behind which the delimiter stands.
\<close>

fun lazy_group :: "string \<Rightarrow> string \<Rightarrow> string option" where
  "lazy_group delim [] = (if delim = [] then Some [] else None)"
| "lazy_group delim (c # cs) =
     (if take (length delim) (c # cs) = delim then Some []
      else if is_line_terminator c then None
      else map_option ((#) c) (lazy_group delim cs))"

definition span_pattern ::
  "string \<Rightarrow> string \<Rightarrow> string \<Rightarrow> bool \<Rightarrow> string \<Rightarrow> (string \<times> nat) option" where
  "span_pattern delim opening closing bol s =
     (if take (length delim) s = delim
      then case lazy_group delim (drop (length delim) s) of
             None \<Rightarrow> None
           | Some captured \<Rightarrow> Some (opening @ captured @ closing, 2 * length delim + length captured)
      else None)"

definition newline_pattern :: "bool \<Rightarrow> string \<Rightarrow> (string \<times> nat) option" where
  "newline_pattern bol s = (if take 1 s = [CHR 0x0A] then Some (''<br />'', 1) else None)"

subsection \<open>The component\<close>

text \<open>The bullet character of the list items (U+2022), in UTF-8.\<close>

definition bullet :: string where
  "bullet = [CHR 0xE2, CHR 0x80, CHR 0xA2]"

text \<open>\<open>formatContent\<close>: the eight replacements, in the order of the source.\<close>

definition formatContent :: "string \<Rightarrow> string" where
  "formatContent text =
     (if text = [] then []
      else
        (replace_all newline_pattern
        (replace_all (line_pattern ''- '' (''<div class=\"doc-list-item\">'' @ bullet @ '' '') ''</div>'')
        (replace_all (span_pattern ''`'' ''<code class=\"doc-code\">'' ''</code>'')
        (replace_all (span_pattern ''*'' ''<em class=\"doc-em\">'' ''</em>'')
        (replace_all (span_pattern ''**'' ''<strong class=\"doc-strong\">'' ''</strong>'')
        (replace_all (line_pattern ''### '' ''<h3 class=\"doc-h3\">'' ''</h3>'')
        (replace_all (line_pattern ''## '' ''<h2 class=\"doc-h2\">'' ''</h2>'')
        (replace_all (line_pattern ''# '' ''<h1 class=\"doc-h1\">'' ''</h1>'') text)))))))))"

text \<open>
  What the text area of the panel holds: the skeleton while loading, the formatted
  content when the content is truthy (only a string has \<open>replace\<close>), the fixed default
  content otherwise. The language and the file name are the other properties of the
  component.
\<close>

datatype doc_view = DocSkeleton | DocHtml string | DocDefault

definition documentation_text :: "js \<Rightarrow> js \<Rightarrow> js \<Rightarrow> bool \<Rightarrow> js_error + doc_view" where
  "documentation_text doc_content doc_language doc_filename loading =
     (if loading then Inr DocSkeleton
      else if truthy doc_content
      then (case doc_content of
              Str text \<Rightarrow> Inr (DocHtml (formatContent text))
            | _ \<Rightarrow> Inl TypeError)
      else Inr DocDefault)"

section \<open>Properties of the suggestions panel\<close>

lemma bind_err_simps [simp]: "bind_err (Inr x) f = f x" "bind_err (Inl e) f = Inl e"
  by (simp_all add: bind_err_def)

lemma stringify_in_is_string: "JSON_stringify v = Str (stringify_in v) \<or> v = Undefined"
  by (simp add: JSON_stringify_def)

text \<open>
  Claim C8, as amended. \<open>formatSuggestion\<close> returns on every value except \<open>null\<close> and
  \<open>undefined\<close>, where reading \<open>.message\<close> throws a TypeError. A string is returned
  unchanged; an object with a truthy \<open>message\<close> yields exactly that message (a
  string when the message is one); every other value yields its JSON
  serialization, which is a string.
\<close>

theorem formatSuggestion_shapes:
  "formatSuggestion (Str x) = Inr (Str x)
   \<and> (map_of kvs ''message'' = Some m \<and> truthy m \<longrightarrow> formatSuggestion (Obj kvs) = Inr m)
   \<and> (s \<noteq> Null \<and> s \<noteq> Undefined \<and> (\<forall>y. s \<noteq> Str y)
        \<and> (\<forall>ps v. s = Obj ps \<and> map_of ps ''message'' = Some v \<longrightarrow> \<not> truthy v)
       \<longrightarrow> formatSuggestion s = Inr (Str (stringify_in s)))
   \<and> (s \<noteq> Null \<and> s \<noteq> Undefined \<longrightarrow> (\<exists>r. formatSuggestion s = Inr r))
   \<and> (s \<noteq> Null \<and> s \<noteq> Undefined
        \<and> (\<forall>ps v. s = Obj ps \<and> map_of ps ''message'' = Some v \<and> truthy v \<longrightarrow> (\<exists>t. v = Str t))
       \<longrightarrow> (\<exists>t. formatSuggestion s = Inr (Str t)))
   \<and> formatSuggestion Null = Inl TypeError
   \<and> formatSuggestion Undefined = Inl TypeError"
proof -
  have a: "formatSuggestion (Str x) = Inr (Str x)"
    by (simp add: formatSuggestion_def)
  have b: "map_of kvs ''message'' = Some m \<and> truthy m \<longrightarrow> formatSuggestion (Obj kvs) = Inr m"
    by (simp add: formatSuggestion_def bind_err_def)
  have c: "s \<noteq> Null \<and> s \<noteq> Undefined \<and> (\<forall>y. s \<noteq> Str y)
        \<and> (\<forall>ps v. s = Obj ps \<and> map_of ps ''message'' = Some v \<longrightarrow> \<not> truthy v)
       \<longrightarrow> formatSuggestion s = Inr (Str (stringify_in s))"
    by (cases s) (auto simp: formatSuggestion_def bind_err_def JSON_stringify_def
        split: option.splits)
  have d: "s \<noteq> Null \<and> s \<noteq> Undefined \<longrightarrow> (\<exists>r. formatSuggestion s = Inr r)"
    by (cases s) (auto simp: formatSuggestion_def bind_err_def split: option.splits)
  have e: "s \<noteq> Null \<and> s \<noteq> Undefined
        \<and> (\<forall>ps v. s = Obj ps \<and> map_of ps ''message'' = Some v \<and> truthy v \<longrightarrow> (\<exists>t. v = Str t))
       \<longrightarrow> (\<exists>t. formatSuggestion s = Inr (Str t))"
    by (cases s) (auto simp: formatSuggestion_def bind_err_def JSON_stringify_def
        split: option.splits)
  have f: "formatSuggestion Null = Inl TypeError" "formatSuggestion Undefined = Inl TypeError"
    by (simp_all add: formatSuggestion_def bind_err_def)
  from a b c d e f show ?thesis by blast
qed

theorem formatSuggestion_shapes_witness:
  "map_of [(''message'', Str ''Add a docstring'')] ''message'' = Some (Str ''Add a docstring'')
   \<and> truthy (Str ''Add a docstring'')
   \<and> formatSuggestion (Obj [(''message'', Str ''Add a docstring'')]) = Inr (Str ''Add a docstring'')
   \<and> formatSuggestion (Num 7) = Inr (Str ''7'')
   \<and> formatSuggestion (Obj [(''line'', Num 3)]) = Inr (Str ''{\"line\":3}'')"
proof -
  have v: "stringify_in (Num 7) = ''7''"
    "stringify_in (Obj [(''line'', Num 3)]) = ''{\"line\":3}''"
    by code_simp+
  show ?thesis
    using formatSuggestion_shapes [of "''x''" "[(''message'', Str ''Add a docstring'')]"
        "Str ''Add a docstring''" "Num 7"]
      formatSuggestion_shapes [of "''x''" "[]" "Null" "Obj [(''line'', Num 3)]"]
    unfolding v by simp
qed

text \<open>
  The claim as first stated fails: on \<open>null\<close> the function throws, and a truthy
  message that is not a string is returned as it is.
\<close>

theorem formatSuggestion_counterexample:
  "formatSuggestion Null = Inl TypeError
   \<and> formatSuggestion (Obj [(''message'', Num 42)]) = Inr (Num 42)"
  by (simp add: formatSuggestion_def bind_err_def)

subsection \<open>Rendering a Suggestion record\<close>

lemma show_int_nat: "show_int (int n) = show_nat n"
  by (simp add: show_int_def)

lemma show_int_0: "show_int 0 = ''0''"
  by code_simp

lemma severity_name_lower: "toLowerCase (severity_name t) = severity_name t"
  by (cases t) (simp_all add: toLowerCase_def lower_char_def)

lemma severity_name_nonempty: "severity_name t \<noteq> []"
  by (cases t) simp_all

lemma get_prop_type: "get_prop (suggestion_js s) ''type'' = Inr (Str (severity_name (type s)))"
  by (simp add: suggestion_js_def)

lemma get_prop_line:
  "get_prop (suggestion_js s) ''line'' =
     Inr (case line s of Some n \<Rightarrow> Num (int n) | None \<Rightarrow> Undefined)"
  by (simp add: suggestion_js_def split: option.splits)

lemma get_prop_message: "get_prop (suggestion_js s) ''message'' = Inr (Str (message s))"
  by (simp add: suggestion_js_def split: option.splits)

lemma get_prop_code:
  "get_prop (suggestion_js s) ''code'' =
     Inr (case code s of Some c \<Rightarrow> Str c | None \<Rightarrow> Undefined)"
  by (simp add: suggestion_js_def split: option.splits)

lemma icon_of_severity:
  "getSuggestionIcon (Str (severity_name t)) =
     Inr (case t of Warning \<Rightarrow> WarningIcon | Error \<Rightarrow> ErrorIcon | Info \<Rightarrow> InfoIcon
          | Style \<Rightarrow> CheckIcon)"
  by (cases t) (simp_all add: Let_def toLowerCase_def lower_char_def)

lemma formatSuggestion_record:
  "formatSuggestion (suggestion_js s) =
     Inr (if message s = [] then Str (stringify_in (suggestion_js s)) else Str (message s))"
  using get_prop_message [of s]
  by (simp add: formatSuggestion_def JSON_stringify_def suggestion_js_def)

lemma render_item_record:
  "render_item i (suggestion_js s) = Inr
     \<lparr>key = i,
      icon_slot = (case type s of Warning \<Rightarrow> WarningIcon | Error \<Rightarrow> ErrorIcon
                   | Info \<Rightarrow> InfoIcon | Style \<Rightarrow> CheckIcon),
      line_slot = (case line s of None \<Rightarrow> NoNode
         | Some n \<Rightarrow> if n = 0 then Txt ''0'' else El ''suggestion-line'' (''Line '' @ show_nat n)),
      type_slot = El (''suggestion-type '' @ severity_name (type s)) (severity_name (type s)),
      message_text = (if message s = [] then stringify_in (suggestion_js s) else message s),
      code_slot = (case code s of None \<Rightarrow> NoNode
         | Some c \<Rightarrow> if c = [] then NoNode else El ''suggestion-code'' c)\<rparr>"
proof -
  have t: "js_or (Str (severity_name (type s))) (Str ''suggestion'') = Str (severity_name (type s))"
    by (simp add: js_or_def severity_name_nonempty)
  show ?thesis
    by (simp add: render_item_def get_prop_type get_prop_line get_prop_code
        formatSuggestion_record t icon_of_severity and_then_def show_int_nat
        severity_name_lower show_int_0 severity_name_nonempty
        del: getSuggestionIcon.simps split: option.splits)
qed

text \<open>
  Claim C5, as amended. Every Suggestion record (severity type, message, optional line,
  optional code excerpt) is rendered without error. The line label is rendered if and
  only if a line number is present and not zero, and then it reads \<open>Line n\<close>; without
  a line number nothing stands in its place. The code excerpt is rendered if and only if
  a code field is present and not empty, and otherwise nothing stands in its place. A
  message that is not empty is always rendered as it is.
\<close>

theorem suggestion_display_optional_fields:
  "\<exists>it. render_item i (suggestion_js s) = Inr it
     \<and> ((\<exists>t. line_slot it = El ''suggestion-line'' t) = (\<exists>n. line s = Some n \<and> n \<noteq> 0))
     \<and> (\<forall>n. line s = Some n \<and> n \<noteq> 0
           \<longrightarrow> line_slot it = El ''suggestion-line'' (''Line '' @ show_nat n))
     \<and> (line s = None \<longrightarrow> line_slot it = NoNode)
     \<and> ((\<exists>t. code_slot it = El ''suggestion-code'' t) = (\<exists>c. code s = Some c \<and> c \<noteq> []))
     \<and> code_slot it =
         (case code s of None \<Rightarrow> NoNode
          | Some c \<Rightarrow> if c = [] then NoNode else El ''suggestion-code'' c)
     \<and> (message s \<noteq> [] \<longrightarrow> message_text it = message s)"
proof -
  obtain it where it: "render_item i (suggestion_js s) = Inr it"
    and ls: "line_slot it = (case line s of None \<Rightarrow> NoNode
         | Some n \<Rightarrow> if n = 0 then Txt ''0'' else El ''suggestion-line'' (''Line '' @ show_nat n))"
    and cs: "code_slot it = (case code s of None \<Rightarrow> NoNode
         | Some c \<Rightarrow> if c = [] then NoNode else El ''suggestion-code'' c)"
    and mt: "message_text it = (if message s = [] then stringify_in (suggestion_js s) else message s)"
    by (simp add: render_item_record)
  have a: "(\<exists>t. line_slot it = El ''suggestion-line'' t) = (\<exists>n. line s = Some n \<and> n \<noteq> 0)"
    unfolding ls by (cases "line s") auto
  have b: "\<forall>n. line s = Some n \<and> n \<noteq> 0
           \<longrightarrow> line_slot it = El ''suggestion-line'' (''Line '' @ show_nat n)"
    unfolding ls by simp
  have c: "line s = None \<longrightarrow> line_slot it = NoNode"
    unfolding ls by simp
  have d: "(\<exists>t. code_slot it = El ''suggestion-code'' t) = (\<exists>c. code s = Some c \<and> c \<noteq> [])"
    unfolding cs by (cases "code s") auto
  have e: "message s \<noteq> [] \<longrightarrow> message_text it = message s"
    unfolding mt by simp
  from it a b c d cs e show ?thesis
    by (intro exI [of _ it] conjI)
qed

theorem suggestion_display_optional_fields_witness:
  "\<exists>it. render_item 2 (suggestion_js
       \<lparr>type = Warning, line = Some 12, message = ''Function is too long'',
        code = Some ''def f():''\<rparr>) = Inr it
     \<and> line_slot it = El ''suggestion-line'' ''Line 12''
     \<and> code_slot it = El ''suggestion-code'' ''def f():''
     \<and> message_text it = ''Function is too long''"
proof -
  let ?s = "\<lparr>type = Warning, line = Some 12, message = ''Function is too long'',
          code = Some ''def f():''\<rparr>"
  have n: "show_nat 12 = ''12''" by code_simp
  obtain it where it: "render_item 2 (suggestion_js ?s) = Inr it"
    and l: "\<forall>n. line ?s = Some n \<and> n \<noteq> 0
           \<longrightarrow> line_slot it = El ''suggestion-line'' (''Line '' @ show_nat n)"
    and c: "code_slot it =
         (case code ?s of None \<Rightarrow> NoNode
          | Some c \<Rightarrow> if c = [] then NoNode else El ''suggestion-code'' c)"
    and m: "message ?s \<noteq> [] \<longrightarrow> message_text it = message ?s"
    using suggestion_display_optional_fields [of 2 ?s] by blast
  from l have l': "line_slot it = El ''suggestion-line'' ''Line 12''"
    by (simp add: n)
  from c have c': "code_slot it = El ''suggestion-code'' ''def f():''"
    by simp
  from m have m': "message_text it = ''Function is too long''"
    by simp
  from it l' c' m' show ?thesis
    by (intro exI [of _ it] conjI)
qed

text \<open>
  The claim as first stated fails on a record whose line is 0 and whose code excerpt is
  the empty string: both fields are present, and neither the label nor the excerpt is
  among what is rendered.
\<close>

theorem suggestion_display_counterexample:
  "render_item 0 (suggestion_js \<lparr>type = Info, line = Some 0, message = ''m'', code = Some []\<rparr>)
     = Inr \<lparr>key = 0, icon_slot = InfoIcon, line_slot = Txt ''0'',
            type_slot = El ''suggestion-type info'' ''info'', message_text = ''m'',
            code_slot = NoNode\<rparr>"
  by (simp add: render_item_record)

subsection \<open>The empty list\<close>

lemma generateSuggestions_without_field:
  "suggest file = Response ok (Some data) \<Longrightarrow> get_prop data ''suggestions'' = Inr v
     \<Longrightarrow> \<not> truthy v \<Longrightarrow> generateSuggestions suggest file st = st"
  by (simp add: generateSuggestions_def)

text \<open>
  Claim C6, as amended. When the suggestion request itself fails (in transport, with a
  body that is not JSON, or with the body \<open>null\<close>), the suggestions state is set to
  the empty list, as it is when the response carries an empty list. For the empty list
  the panel shows the neutral no-suggestions state when it is not loading and the
  loading skeleton while loading; neither is an error state.
\<close>

theorem empty_suggestions_neutral:
  "(suggest file = NetworkFailure \<or> suggest file = Response ok None
      \<or> suggest file = Response ok (Some Null)
     \<longrightarrow> suggestions (generateSuggestions suggest file st) = Arr [])
   \<and> (suggest file = Response ok (Some data) \<and> get_prop data ''suggestions'' = Inr (Arr [])
     \<longrightarrow> suggestions (generateSuggestions suggest file st) = Arr [])
   \<and> Suggestions (Arr []) False = Inr \<lparr>count_badge = None, panel_body = DefaultContent\<rparr>
   \<and> Suggestions (Arr []) True = Inr \<lparr>count_badge = None, panel_body = Skeleton\<rparr>"
proof -
  have a: "suggest file = NetworkFailure \<or> suggest file = Response ok None
             \<or> suggest file = Response ok (Some Null)
           \<longrightarrow> suggestions (generateSuggestions suggest file st) = Arr []"
    by (auto simp: generateSuggestions_def)
  have b: "suggest file = Response ok (Some data) \<and> get_prop data ''suggestions'' = Inr (Arr [])
           \<longrightarrow> suggestions (generateSuggestions suggest file st) = Arr []"
    by (simp add: generateSuggestions_def)
  have c: "Suggestions (Arr []) False = Inr \<lparr>count_badge = None, panel_body = DefaultContent\<rparr>"
    by (simp add: Suggestions_def)
  have d: "Suggestions (Arr []) True = Inr \<lparr>count_badge = None, panel_body = Skeleton\<rparr>"
    by (simp add: Suggestions_def)
  from a b c d show ?thesis by blast
qed

theorem empty_suggestions_neutral_witness:
  "(\<lambda>f. NetworkFailure) \<lparr>fname = ''a.py'', fcontent = ''x = 1''\<rparr> = NetworkFailure
   \<and> suggestions (generateSuggestions (\<lambda>f. NetworkFailure)
        \<lparr>fname = ''a.py'', fcontent = ''x = 1''\<rparr>
        (initial_state\<lparr>suggestions := Arr [Str ''old'']\<rparr>)) = Arr []
   \<and> (\<lambda>f. Response True (Some (Obj [(''suggestions'', Arr [])])))
        \<lparr>fname = ''a.py'', fcontent = ''x = 1''\<rparr>
       = Response True (Some (Obj [(''suggestions'', Arr [])]))
   \<and> get_prop (Obj [(''suggestions'', Arr [])]) ''suggestions'' = Inr (Arr [])
   \<and> suggestions (generateSuggestions (\<lambda>f. Response True (Some (Obj [(''suggestions'', Arr [])])))
        \<lparr>fname = ''a.py'', fcontent = ''x = 1''\<rparr>
        (initial_state\<lparr>suggestions := Arr [Str ''old'']\<rparr>)) = Arr []"
  using empty_suggestions_neutral [of "\<lambda>f. NetworkFailure"
      "\<lparr>fname = ''a.py'', fcontent = ''x = 1''\<rparr>" True
      "initial_state\<lparr>suggestions := Arr [Str ''old'']\<rparr>" Null]
    empty_suggestions_neutral [of "\<lambda>f. Response True (Some (Obj [(''suggestions'', Arr [])]))"
      "\<lparr>fname = ''a.py'', fcontent = ''x = 1''\<rparr>" True
      "initial_state\<lparr>suggestions := Arr [Str ''old'']\<rparr>" "Obj [(''suggestions'', Arr [])]"]
  by simp

text \<open>
  The claim as first stated fails while the application is loading: the list is empty
  and the panel shows the skeleton, not the neutral state.
\<close>

theorem empty_suggestions_counterexample:
  "Suggestions (Arr []) True \<noteq> Inr \<lparr>count_badge = None, panel_body = DefaultContent\<rparr>"
  by (simp add: Suggestions_def)

subsection \<open>Order of the suggestions\<close>

lemma before_eq_total: "before_eq a b \<or> before_eq b a"
  by (auto simp: before_eq_def)

lemma before_eq_trans: "before_eq a b \<Longrightarrow> before_eq b c \<Longrightarrow> before_eq a c"
  by (auto simp: before_eq_def)

lemma set_insert_suggestion: "set (insert_suggestion s xs) = insert s (set xs)"
  by (induction xs) auto

lemma length_insert_suggestion: "length (insert_suggestion s xs) = Suc (length xs)"
  by (induction xs) auto

lemma sorted_insert_suggestion:
  "sorted_wrt before_eq xs \<Longrightarrow> sorted_wrt before_eq (insert_suggestion s xs)"
proof (induction xs)
  case Nil
  then show ?case by simp
next
  case (Cons x xs)
  show ?case
  proof (cases "before_eq s x")
    case True
    with Cons.prems show ?thesis
      by (auto intro: before_eq_trans)
  next
    case False
    then have "before_eq x s"
      using before_eq_total by blast
    with False Cons show ?thesis
      by (auto simp: set_insert_suggestion)
  qed
qed

lemma set_sort_suggestions: "set (sort_suggestions xs) = set xs"
  by (induction xs) (auto simp: set_insert_suggestion)

lemma length_sort_suggestions: "length (sort_suggestions xs) = length xs"
  by (induction xs) (auto simp: length_insert_suggestion)

lemma sorted_sort_suggestions: "sorted_wrt before_eq (sort_suggestions xs)"
  by (induction xs) (auto simp: sorted_insert_suggestion)

lemma before_eq_lines:
  "before_eq a b \<Longrightarrow> line a = Some m \<Longrightarrow> line b = Some n
     \<Longrightarrow> m \<le> n \<and> (m = n \<longrightarrow> rank (type b) \<le> rank (type a))"
  by (auto simp: before_eq_def line_key_def)

lemma sequence_err_all_ok:
  "(\<forall>y \<in> set ys. \<exists>r. f y = Inr r)
     \<Longrightarrow> \<exists>rs. sequence_err (map f ys) = Inr rs \<and> length rs = length ys
            \<and> (\<forall>i < length ys. f (ys ! i) = Inr (rs ! i))"
proof (induction ys)
  case Nil
  then show ?case by simp
next
  case (Cons y ys)
  then obtain rs where rs: "sequence_err (map f ys) = Inr rs" "length rs = length ys"
      "\<forall>i < length ys. f (ys ! i) = Inr (rs ! i)"
    by auto
  from Cons.prems obtain r where r: "f y = Inr r"
    by auto
  have "\<forall>i < length (y # ys). f ((y # ys) ! i) = Inr ((r # rs) ! i)"
    using r rs(3) by (auto simp: nth_Cons split: nat.splits)
  then show ?case
    using r rs(1,2) by auto
qed

lemma map_items_records:
  "\<exists>items. map_items (Arr (map suggestion_js xs)) = Inr items \<and> length items = length xs
     \<and> (\<forall>i < length xs. render_item i (suggestion_js (xs ! i)) = Inr (items ! i))"
proof -
  let ?ys = "enumerate 0 (map suggestion_js xs)"
  let ?f = "\<lambda>(i, s). render_item i s"
  have "\<forall>y \<in> set ?ys. \<exists>r. ?f y = Inr r"
    by (auto simp: in_set_enumerate_eq render_item_record)
  from sequence_err_all_ok [OF this]
  obtain rs where rs: "sequence_err (map ?f ?ys) = Inr rs" "length rs = length ?ys"
      "\<forall>i < length ?ys. ?f (?ys ! i) = Inr (rs ! i)"
    by blast
  have "\<forall>i < length xs. render_item i (suggestion_js (xs ! i)) = Inr (rs ! i)"
    using rs(3) by (auto simp: nth_enumerate_eq)
  with rs(1,2) show ?thesis
    by auto
qed

lemma render_item_record_key: "render_item i (suggestion_js s) = Inr it \<Longrightarrow> key it = i"
  by (auto simp: render_item_record)

text \<open>
  Claim C4. The list that the engine produces for a file holds exactly the suggestions
  of its rules, in source-line order: line numbers are non-decreasing, and among equal
  line numbers the severity rank is non-increasing. The panel keeps the order of the
  sequence it receives: item \<open>i\<close> on the screen, with key \<open>i\<close>, is the rendering of
  element \<open>i\<close> of the list.
\<close>

theorem suggestion_order_kept:
  "(\<forall>i j m n. i < j \<and> j < length (analyze rules u)
        \<and> line (analyze rules u ! i) = Some m \<and> line (analyze rules u ! j) = Some n
      \<longrightarrow> m \<le> n \<and> (m = n \<longrightarrow> rank (type (analyze rules u ! j)) \<le> rank (type (analyze rules u ! i))))
   \<and> set (analyze rules u) = (\<Union>rule \<in> set rules. set (rule u))
   \<and> (\<exists>p. Suggestions (Arr (map suggestion_js xs)) False = Inr p
        \<and> (if xs = [] then panel_body p = DefaultContent
            else \<exists>items. panel_body p = SuggestionList items \<and> length items = length xs
                   \<and> (\<forall>i < length xs.
                        render_item i (suggestion_js (xs ! i)) = Inr (items ! i)
                        \<and> key (items ! i) = i)))"
proof -
  let ?out = "analyze rules u"
  have sorted: "sorted_wrt before_eq ?out"
    by (simp add: analyze_def sorted_sort_suggestions)
  have a: "\<forall>i j m n. i < j \<and> j < length ?out
        \<and> line (?out ! i) = Some m \<and> line (?out ! j) = Some n
      \<longrightarrow> m \<le> n \<and> (m = n \<longrightarrow> rank (type (?out ! j)) \<le> rank (type (?out ! i)))"
  proof (intro allI impI)
    fix i j m n
    assume h: "i < j \<and> j < length ?out \<and> line (?out ! i) = Some m \<and> line (?out ! j) = Some n"
    then have "before_eq (?out ! i) (?out ! j)"
      using sorted by (simp add: sorted_wrt_iff_nth_less)
    with h show "m \<le> n \<and> (m = n \<longrightarrow> rank (type (?out ! j)) \<le> rank (type (?out ! i)))"
      using before_eq_lines by blast
  qed
  have b: "set ?out = (\<Union>rule \<in> set rules. set (rule u))"
    by (simp add: analyze_def set_sort_suggestions)
  obtain items where items: "map_items (Arr (map suggestion_js xs)) = Inr items"
      "length items = length xs"
      "\<forall>i < length xs. render_item i (suggestion_js (xs ! i)) = Inr (items ! i)"
    using map_items_records by blast
  have keys: "\<forall>i < length xs. key (items ! i) = i"
  proof (intro allI impI)
    fix i assume "i < length xs"
    with items(3) have "render_item i (suggestion_js (xs ! i)) = Inr (items ! i)"
      by blast
    then show "key (items ! i) = i"
      by (rule render_item_record_key)
  qed
  have c: "\<exists>p. Suggestions (Arr (map suggestion_js xs)) False = Inr p
        \<and> (if xs = [] then panel_body p = DefaultContent
            else \<exists>items. panel_body p = SuggestionList items \<and> length items = length xs
                   \<and> (\<forall>i < length xs.
                        render_item i (suggestion_js (xs ! i)) = Inr (items ! i)
                        \<and> key (items ! i) = i))"
  proof (cases "xs = []")
    case True
    then show ?thesis
      by (simp add: Suggestions_def)
  next
    case False
    then have "Suggestions (Arr (map suggestion_js xs)) False =
        Inr \<lparr>count_badge = Some (show_nat (length xs) @ '' '' @
                 (if length xs = 1 then ''suggestion'' else ''suggestions'')),
             panel_body = SuggestionList items\<rparr>"
      using items(1) by (simp add: Suggestions_def del: map_items.simps)
    with False items(2,3) keys show ?thesis
      by auto
  qed
  from a b c show ?thesis by blast
qed

theorem suggestion_order_kept_witness:
  "analyze
     [\<lambda>u. [\<lparr>type = Info, line = Some 7, message = ''Missing documentation: f'', code = None\<rparr>,
            \<lparr>type = Style, line = Some 3, message = ''Name is not snake_case'', code = None\<rparr>],
      \<lambda>u. [\<lparr>type = Warning, line = Some 7, message = ''Too many parameters'', code = None\<rparr>]]
     ()
   = [\<lparr>type = Style, line = Some 3, message = ''Name is not snake_case'', code = None\<rparr>,
      \<lparr>type = Warning, line = Some 7, message = ''Too many parameters'', code = None\<rparr>,
      \<lparr>type = Info, line = Some 7, message = ''Missing documentation: f'', code = None\<rparr>]
   \<and> rank Info \<le> rank Warning
   \<and> (\<exists>p items. Suggestions (Arr (map suggestion_js
          [\<lparr>type = Style, line = Some 3, message = ''Name is not snake_case'', code = None\<rparr>,
           \<lparr>type = Warning, line = Some 7, message = ''Too many parameters'', code = None\<rparr>]))
          False = Inr p
        \<and> panel_body p = SuggestionList items \<and> length items = 2
        \<and> key (items ! 0) = 0 \<and> key (items ! 1) = 1)"
proof -
  let ?R = "[\<lambda>u::unit. [\<lparr>type = Info, line = Some 7, message = ''Missing documentation: f'', code = None\<rparr>,
            \<lparr>type = Style, line = Some 3, message = ''Name is not snake_case'', code = None\<rparr>],
      \<lambda>u. [\<lparr>type = Warning, line = Some 7, message = ''Too many parameters'', code = None\<rparr>]]"
  let ?xs = "[\<lparr>type = Style, line = Some 3, message = ''Name is not snake_case'', code = None\<rparr>,
           \<lparr>type = Warning, line = Some 7, message = ''Too many parameters'', code = None\<rparr>]"
  note t = suggestion_order_kept [of ?R "()" ?xs]
  have ev: "analyze ?R () =
     [\<lparr>type = Style, line = Some 3, message = ''Name is not snake_case'', code = None\<rparr>,
      \<lparr>type = Warning, line = Some 7, message = ''Too many parameters'', code = None\<rparr>,
      \<lparr>type = Info, line = Some 7, message = ''Missing documentation: f'', code = None\<rparr>]"
    by (simp add: analyze_def before_eq_def line_key_def)
  from t have "\<forall>i j m n. i < j \<and> j < length (analyze ?R ())
        \<and> line (analyze ?R () ! i) = Some m \<and> line (analyze ?R () ! j) = Some n
      \<longrightarrow> m \<le> n \<and> (m = n \<longrightarrow> rank (type (analyze ?R () ! j)) \<le> rank (type (analyze ?R () ! i)))"
    by (rule conjunct1)
  then have "(1::nat) < 2 \<and> 2 < length (analyze ?R ())
        \<and> line (analyze ?R () ! 1) = Some 7 \<and> line (analyze ?R () ! 2) = Some 7
      \<longrightarrow> (7::nat) \<le> 7 \<and> ((7::nat) = 7 \<longrightarrow> rank (type (analyze ?R () ! 2)) \<le> rank (type (analyze ?R () ! 1)))"
    by blast
  then have r: "rank Info \<le> rank Warning"
    unfolding ev by simp
  from t have "\<exists>p. Suggestions (Arr (map suggestion_js ?xs)) False = Inr p
        \<and> (if ?xs = [] then panel_body p = DefaultContent
            else \<exists>items. panel_body p = SuggestionList items \<and> length items = length ?xs
                   \<and> (\<forall>i < length ?xs.
                        render_item i (suggestion_js (?xs ! i)) = Inr (items ! i)
                        \<and> key (items ! i) = i))"
    by (rule conjunct2 [THEN conjunct2])
  then obtain p items where p: "Suggestions (Arr (map suggestion_js ?xs)) False = Inr p"
      "panel_body p = SuggestionList items" "length items = length ?xs"
      "\<forall>i < length ?xs. render_item i (suggestion_js (?xs ! i)) = Inr (items ! i) \<and> key (items ! i) = i"
    by auto
  from p(4) have "key (items ! 0) = 0 \<and> key (items ! 1) = 1"
    by simp
  with p(1,2,3) ev r show ?thesis
    by auto
qed

section \<open>Properties of the upload box and the recent-files list\<close>

lemma get_prop_after_error:
  "get_prop data ''error'' = Inr e \<Longrightarrow> \<exists>m. get_prop data k = Inr m"
  by (cases data) auto

text \<open>
  Claim C3. When the parse-code request returns an error result (a body whose \<open>error\<close>
  field is truthy), the upload handler sets the error state to the returned message, or
  to the generic text when there is none, and does not call \<open>onFileUpload\<close>: the
  application state is the one before the upload with loading switched off, so the file,
  the documentation, the language, the suggestions and the refresh counter are unchanged.
  A returned message that is a string is shown verbatim in the error line.
\<close>

theorem parse_error_is_terminal:
  assumes "post file = Resolved data"
    and "get_prop data ''error'' = Inr e"
    and "truthy e"
  shows "\<exists>m. get_prop data ''message'' = Inr m
     \<and> handleFiles post suggest engine_msg (file # rest) (u, a) =
         (u\<lparr>error := (if truthy m then m else Str ''Error processing file'')\<rparr>,
          a\<lparr>isLoading := False\<rparr>)
     \<and> (\<forall>t. m = Str t \<and> t \<noteq> [] \<longrightarrow>
           error_view (fst (handleFiles post suggest engine_msg (file # rest) (u, a)))
             = Inr (El ''error-message-horizontal'' t))"
proof -
  obtain m where m: "get_prop data ''message'' = Inr m"
    using get_prop_after_error [OF assms(2)] by blast
  have h: "handleFiles post suggest engine_msg (file # rest) (u, a) =
         (u\<lparr>error := (if truthy m then m else Str ''Error processing file'')\<rparr>,
          a\<lparr>isLoading := False\<rparr>)"
    using assms m by (simp add: handleFiles_def handleLoading_def js_or_def)
  have "\<forall>t. m = Str t \<and> t \<noteq> [] \<longrightarrow>
           error_view (fst (handleFiles post suggest engine_msg (file # rest) (u, a)))
             = Inr (El ''error-message-horizontal'' t)"
    unfolding h by (simp add: error_view_def and_then_def)
  with m h show ?thesis by blast
qed

theorem parse_error_is_terminal_witness:
  "(\<lambda>f. Resolved (Obj [(''error'', Bool True), (''message'', Str ''Unsupported file type'')]))
      \<lparr>fname = ''notes.txt'', fcontent = ''hello''\<rparr>
     = Resolved (Obj [(''error'', Bool True), (''message'', Str ''Unsupported file type'')])
   \<and> get_prop (Obj [(''error'', Bool True), (''message'', Str ''Unsupported file type'')]) ''error''
     = Inr (Bool True)
   \<and> truthy (Bool True)
   \<and> handleFiles
        (\<lambda>f. Resolved (Obj [(''error'', Bool True), (''message'', Str ''Unsupported file type'')]))
        (\<lambda>f. NetworkFailure) ''''
        [\<lparr>fname = ''notes.txt'', fcontent = ''hello''\<rparr>]
        (\<lparr>dragActive = False, error = Str []\<rparr>,
         initial_state\<lparr>generatedDocs := Str ''# old'', suggestions := Arr [Str ''old'']\<rparr>)
     = (\<lparr>dragActive = False, error = Str ''Unsupported file type''\<rparr>,
        initial_state\<lparr>generatedDocs := Str ''# old'', suggestions := Arr [Str ''old''],
                      isLoading := False\<rparr>)"
  using parse_error_is_terminal [of
      "\<lambda>f. Resolved (Obj [(''error'', Bool True), (''message'', Str ''Unsupported file type'')])"
      "\<lparr>fname = ''notes.txt'', fcontent = ''hello''\<rparr>"
      "Obj [(''error'', Bool True), (''message'', Str ''Unsupported file type'')]"
      "Bool True" "\<lambda>f. NetworkFailure" "[]" "[]"
      "\<lparr>dragActive = False, error = Str []\<rparr>"
      "initial_state\<lparr>generatedDocs := Str ''# old'', suggestions := Arr [Str ''old'']\<rparr>"]
  by (simp add: initial_state_def)

subsection \<open>Unsupported file types\<close>

lemma accepted_suffixes_eq: "accepted_suffixes = [''.py'', ''.java'', ''.js'', ''.jsx'']"
  by (simp add: accepted_suffixes_def accept_def)

text \<open>
  Claim C1. For every file of the recent-files list whose extension, lower-cased, is not
  one of py, java, js, jsx, a click sends no parse request: unless the file is a \<open>.md\<close>
  download, the click does nothing but report the unsupported type to the user. The
  extension is what the code takes for it, the part of the name after its last dot (the
  whole name when it has no dot). The upload input accepts exactly \<open>.py\<close>, \<open>.java\<close>,
  \<open>.js\<close>, \<open>.jsx\<close>, the recognized extensions with their dots.
\<close>

theorem unsupported_extension_rejected:
  "(extension_of (filename file) \<notin> {''py'', ''java'', ''js'', ''jsx''}
      \<longrightarrow> (\<forall>f. Fetch (ParseCode f) \<notin> set (handleFileClick server file))
        \<and> (extension_of (filename file) \<noteq> ''md''
            \<longrightarrow> handleFileClick server file =
                  [Alert (''File type .'' @ extension_of (filename file) @
                          '' is not supported for documentation generation.'')]))
   \<and> accepted_suffixes = map (\<lambda>e. CHR ''.'' # e) supported_extensions
   \<and> set supported_extensions = {''py'', ''java'', ''js'', ''jsx''}"
proof -
  have a: "extension_of (filename file) \<notin> {''py'', ''java'', ''js'', ''jsx''}
      \<longrightarrow> (\<forall>f. Fetch (ParseCode f) \<notin> set (handleFileClick server file))
        \<and> (extension_of (filename file) \<noteq> ''md''
            \<longrightarrow> handleFileClick server file =
                  [Alert (''File type .'' @ extension_of (filename file) @
                          '' is not supported for documentation generation.'')])"
    by (auto simp: handleFileClick_def Let_def supported_extensions_def load_failed_def
        split: fetch_result.splits)
  have b: "accepted_suffixes = map (\<lambda>e. CHR ''.'' # e) supported_extensions"
    by (simp add: accepted_suffixes_eq supported_extensions_def)
  have c: "set supported_extensions = {''py'', ''java'', ''js'', ''jsx''}"
    by (simp add: supported_extensions_def)
  from a b c show ?thesis by blast
qed

theorem unsupported_extension_rejected_witness:
  "extension_of ''notes.TXT'' = ''txt''
   \<and> ''txt'' \<notin> {''py'', ''java'', ''js'', ''jsx''} \<and> ''txt'' \<noteq> ''md''
   \<and> handleFileClick (\<lambda>r. NetworkFailure)
        \<lparr>file_id = ''42'', filename = ''notes.TXT'', file_size = 10,
         upload_time = ''2024-01-01'', file_language = ''text'', file_type = ''uploaded''\<rparr>
     = [Alert ''File type .txt is not supported for documentation generation.'']"
proof -
  have e: "extension_of ''notes.TXT'' = ''txt''"
    by code_simp
  show ?thesis
    using unsupported_extension_rejected [of
        "\<lparr>file_id = ''42'', filename = ''notes.TXT'', file_size = 10,
          upload_time = ''2024-01-01'', file_language = ''text'', file_type = ''uploaded''\<rparr>"
        "\<lambda>r. NetworkFailure"]
    by (simp add: e)
qed

subsection \<open>File sizes\<close>







section \<open>Properties of the dashboard\<close>

lemma nearest_even_le:
  assumes "0 < d" and "n \<le> N * d"
  shows "nearest_even n d \<le> N"
proof -
  have q: "n div d \<le> N"
    using assms by (metis div_le_mono div_mult_self_is_m)
  show ?thesis
  proof (cases "n div d < N")
    case True
    then show ?thesis
      by (simp add: nearest_even_def Let_def)
  next
    case False
    with q have e: "n div d = N" by simp
    then have "N * d \<le> n"
      by (metis div_times_less_eq_dividend)
    with assms(2) have "n = N * d" by simp
    with assms(1) have "n mod d = 0" by simp
    with assms(1) e show ?thesis
      by (simp add: nearest_even_def Let_def)
  qed
qed

lemma bit_length_le: "n < 2 ^ j \<Longrightarrow> bit_length n \<le> j"
proof (induction j arbitrary: n)
  case 0
  then show ?case by (simp add: bit_length.simps)
next
  case (Suc j)
  show ?case
  proof (cases "n = 0")
    case True
    then show ?thesis by (simp add: bit_length.simps)
  next
    case False
    from Suc.prems have "n div 2 < 2 ^ j" by simp
    then have "bit_length (n div 2) \<le> j" by (rule Suc.IH)
    with False show ?thesis
      by (subst bit_length.simps) simp
  qed
qed

lemma fdiv_le_one:
  assumes "a \<le> b" and "0 < b"
  shows "fst (fdiv a b) \<le> 2 ^ snd (fdiv a b)"
proof (cases "a = 0")
  case True
  then show ?thesis by (simp add: fdiv_def)
next
  case False
  define k0 where "k0 = 52 + bit_length b - bit_length a"
  define k where "k = (if 2 ^ 52 * b \<le> a * 2 ^ k0 then k0 else k0 + 1)"
  have f: "fdiv a b = (nearest_even (a * 2 ^ k) b, k)"
    using False by (simp add: fdiv_def k_def k0_def Let_def)
  have "a * 2 ^ k \<le> 2 ^ k * b"
    using assms(1) by (simp add: mult.commute)
  then have "nearest_even (a * 2 ^ k) b \<le> 2 ^ k"
    using assms(2) by (intro nearest_even_le)
  with f show ?thesis by simp
qed

lemma round53_le:
  assumes "p \<le> 100 * 2 ^ k"
  shows "fst (round53 p k) \<le> 100 * 2 ^ snd (round53 p k)"
proof -
  define s where "s = bit_length p - 53"
  have "(100::nat) * 2 ^ k < 128 * 2 ^ k" by simp
  with assms have "p < 128 * 2 ^ k" by (rule le_less_trans)
  then have "p < 2 ^ (k + 7)"
    by (simp add: power_add)
  then have "bit_length p \<le> k + 7" by (rule bit_length_le)
  then have sk: "s \<le> k" by (simp add: s_def)
  show ?thesis
  proof (cases "s = 0")
    case True
    with assms show ?thesis
      by (simp add: round53_def s_def [symmetric])
  next
    case False
    have "(2::nat) ^ (k - s) * 2 ^ s = 2 ^ k"
      using sk by (simp add: power_add [symmetric])
    then have "(100::nat) * 2 ^ (k - s) * 2 ^ s = 100 * 2 ^ k"
      by (simp add: mult.assoc)
    then have "p \<le> 100 * 2 ^ (k - s) * 2 ^ s"
      using assms by simp
    then have "nearest_even p (2 ^ s) \<le> 100 * 2 ^ (k - s)"
      by (intro nearest_even_le) simp_all
    with False sk show ?thesis
      by (simp add: round53_def s_def [symmetric])
  qed
qed

lemma Math_round_le:
  assumes "fst x \<le> N * 2 ^ snd x"
  shows "Math_round x \<le> N"
proof -
  let ?K = "(2::nat) ^ snd x"
  have "2 * fst x + ?K \<le> (2 * N + 1) * ?K"
    using assms by (simp add: algebra_simps)
  then have "(2 * fst x + ?K) div (2 * ?K) \<le> ((2 * N + 1) * ?K) div (2 * ?K)"
    by (rule div_le_mono)
  also have "((2 * N + 1) * ?K) div (2 * ?K) = (2 * N + 1) div 2"
    by (rule div_mult_mult2) simp
  also have "\<dots> = N" by simp
  finally show ?thesis by (simp add: Math_round_def)
qed

lemma percentage_le_100:
  assumes "d \<le> t" and "0 < t"
  shows "Math_round (fmul (fdiv d t) (double_of_nat 100)) \<le> 100"
proof -
  have "fst (fdiv d t) * 100 \<le> 100 * 2 ^ (snd (fdiv d t) + 0)"
    using fdiv_le_one [OF assms] by simp
  then have "fst (round53 (fst (fdiv d t) * 100) (snd (fdiv d t) + 0))
      \<le> 100 * 2 ^ snd (round53 (fst (fdiv d t) * 100) (snd (fdiv d t) + 0))"
    by (rule round53_le)
  then show ?thesis
    by (intro Math_round_le) (simp add: fmul_def double_of_nat_def)
qed

text \<open>
  Claim C9. After every recomputation of the coverage, the documented functions are at
  most the functions found and at most the markers found, the documented classes are at
  most the classes found and at most the markers found, and the coverage is a whole
  number from 0 to 100; it is the default 75 whenever the documentation holds no
  function and no class definition.
\<close>

theorem dashboard_invariants:
  "documentedFunctions (stats (calculateCoverage docs)) \<le> totalFunctions (stats (calculateCoverage docs))
   \<and> documentedClasses (stats (calculateCoverage docs)) \<le> totalClasses (stats (calculateCoverage docs))
   \<and> documentedFunctions (stats (calculateCoverage docs)) \<le> count_docstrings docs
   \<and> documentedClasses (stats (calculateCoverage docs)) \<le> count_docstrings docs
   \<and> coverage (calculateCoverage docs) \<le> 100
   \<and> (count_functions docs + count_classes docs = 0 \<longrightarrow> coverage (calculateCoverage docs) = 75)
   \<and> (\<forall>st st'. dashboard_effect (Str docs) st = Inr st' \<and> docs \<noteq> [] \<longrightarrow> st' = calculateCoverage docs)"
proof -
  have c: "coverage (calculateCoverage docs) \<le> 100"
  proof (cases "0 < count_functions docs + count_classes docs")
    case True
    then show ?thesis
      by (simp add: calculateCoverage_def Let_def percentage_le_100)
  next
    case False
    then show ?thesis
      by (simp add: calculateCoverage_def Let_def)
  qed
  have s: "documentedFunctions (stats (calculateCoverage docs)) \<le> totalFunctions (stats (calculateCoverage docs))"
    "documentedClasses (stats (calculateCoverage docs)) \<le> totalClasses (stats (calculateCoverage docs))"
    "documentedFunctions (stats (calculateCoverage docs)) \<le> count_docstrings docs"
    "documentedClasses (stats (calculateCoverage docs)) \<le> count_docstrings docs"
    by (simp_all add: calculateCoverage_def Let_def)
  have d: "count_functions docs + count_classes docs = 0 \<longrightarrow> coverage (calculateCoverage docs) = 75"
    by (simp add: calculateCoverage_def Let_def)
  have e: "\<forall>st st'. dashboard_effect (Str docs) st = Inr st' \<and> docs \<noteq> [] \<longrightarrow> st' = calculateCoverage docs"
    by (auto simp: dashboard_effect_def)
  from c s d e show ?thesis by blast
qed

lemma bit_length_values:
  "bit_length 2 = 2" "bit_length 3 = 2" "bit_length 23 = 5" "bit_length 40 = 6"
  "bit_length 600479950316066100 = 60" "bit_length 517913957147607000 = 59"
  by (simp_all add: bit_length.simps)

lemma two_thirds_percent: "Math_round (fmul (fdiv 2 3) (double_of_nat 100)) = 67"
proof -
  have a: "nearest_even 18014398509481984 3 = 6004799503160661"
    by (simp add: nearest_even_def Let_def)
  have b: "fdiv 2 3 = (6004799503160661, 53)"
    by (simp add: fdiv_def bit_length_values Let_def a)
  have c: "nearest_even 600479950316066100 128 = 4691249611844266"
    by (simp add: nearest_even_def Let_def)
  have d: "round53 600479950316066100 53 = (4691249611844266, 46)"
    by (simp add: round53_def bit_length_values Let_def c)
  have e: "fmul (6004799503160661, 53) (double_of_nat 100) = (4691249611844266, 46)"
    by (simp add: fmul_def double_of_nat_def d)
  have f: "Math_round (4691249611844266, 46) = 67"
    by (simp add: Math_round_def)
  show ?thesis
    unfolding b e f by (rule refl)
qed

theorem dashboard_invariants_witness:
  "coverage (calculateCoverage ''def add Docstring: a class A Docstring: b def sub'') = 67
   \<and> stats (calculateCoverage ''def add Docstring: a class A Docstring: b def sub'')
       = \<lparr>totalFunctions = 2, documentedFunctions = 2, totalClasses = 1, documentedClasses = 1\<rparr>
   \<and> count_functions ''# Title'' + count_classes ''# Title'' = 0
   \<and> coverage (calculateCoverage ''# Title'') = 75
   \<and> dashboard_effect (Str ''# Title'') dashboard_initial = Inr (calculateCoverage ''# Title'')"
proof -
  have c: "count_functions ''def add Docstring: a class A Docstring: b def sub'' = 2"
    "count_classes ''def add Docstring: a class A Docstring: b def sub'' = 1"
    "count_docstrings ''def add Docstring: a class A Docstring: b def sub'' = 2"
    "count_functions ''# Title'' = 0" "count_classes ''# Title'' = 0"
    by code_simp+
  have v: "calculateCoverage ''def add Docstring: a class A Docstring: b def sub'' =
      \<lparr>coverage = 67,
       stats = \<lparr>totalFunctions = 2, documentedFunctions = 2, totalClasses = 1,
                documentedClasses = 1\<rparr>\<rparr>"
  proof -
    have m: "(2::nat) + 1 = 3" "min (2::nat) 3 = 2" "min (2::nat) 1 = 1" "(0::nat) < 3"
      by simp_all
    show ?thesis
      unfolding calculateCoverage_def c Let_def m two_thirds_percent by simp
  qed
  have e: "dashboard_effect (Str ''# Title'') dashboard_initial = Inr (calculateCoverage ''# Title'')"
    by (simp add: dashboard_effect_def)
  have "count_functions ''# Title'' + count_classes ''# Title'' = 0
      \<longrightarrow> coverage (calculateCoverage ''# Title'') = 75"
    using dashboard_invariants [of "''# Title''"] by (elim conjE)
  then have d: "coverage (calculateCoverage ''# Title'') = 75"
    unfolding c by simp
  have z: "count_functions ''# Title'' + count_classes ''# Title'' = 0"
    unfolding c by simp
  from v d z e show ?thesis
    by (intro conjI) simp_all
qed

subsection \<open>The coverage formula\<close>

lemma tie_percent: "Math_round (fmul (fdiv 23 40) (double_of_nat 100)) = 57"
proof -
  have a: "nearest_even 207165582859042816 40 = 5179139571476070"
    by (simp add: nearest_even_def Let_def)
  have b: "fdiv 23 40 = (5179139571476070, 53)"
    by (simp add: fdiv_def bit_length_values Let_def a)
  have c: "nearest_even 517913957147607000 64 = 8092405580431359"
    by (simp add: nearest_even_def Let_def)
  have d: "round53 517913957147607000 53 = (8092405580431359, 47)"
    by (simp add: round53_def bit_length_values Let_def c)
  have e: "fmul (5179139571476070, 53) (double_of_nat 100) = (8092405580431359, 47)"
    by (simp add: fmul_def double_of_nat_def d)
  have f: "Math_round (8092405580431359, 47) = 57"
    by (simp add: Math_round_def)
  show ?thesis
    unfolding b e f by (rule refl)
qed

text \<open>
  Claim C2. The dashboard counts the \<open>def\<close> definitions, the \<open>class\<close> definitions and
  the \<open>Docstring:\<close> markers of the documentation, and the coverage should be
  \<open>round(100 * min(markers, defs + classes) / (defs + classes))\<close>. The code computes
  \<open>(documented / total) * 100\<close> in double precision, dividing first, and the two
  roundings can carry the product just below a half: with 40 definitions and 23 markers
  the percentage is 57.5, the code's product is 57.49999999999999, and the dashboard
  shows 57 where the formula gives 58.
\<close>

theorem coverage_tie_rounds_down:
  "count_functions (concat (replicate 23 ''def f Docstring:'') @ concat (replicate 17 ''def g '')) = 40
   \<and> count_classes (concat (replicate 23 ''def f Docstring:'') @ concat (replicate 17 ''def g '')) = 0
   \<and> count_docstrings (concat (replicate 23 ''def f Docstring:'') @ concat (replicate 17 ''def g '')) = 23
   \<and> coverage (calculateCoverage
        (concat (replicate 23 ''def f Docstring:'') @ concat (replicate 17 ''def g ''))) = 57
   \<and> spec_coverage 23 40 0 = 58"
proof -
  let ?docs = "concat (replicate 23 ''def f Docstring:'') @ concat (replicate 17 ''def g '')"
  have c: "count_functions ?docs = 40" "count_classes ?docs = 0" "count_docstrings ?docs = 23"
    by code_simp+
  have v: "coverage (calculateCoverage ?docs) = 57"
  proof -
    have m: "(40::nat) + 0 = 40" "min (23::nat) 40 = 23" "min (23::nat) 0 = 0" "(0::nat) < 40"
      by simp_all
    show ?thesis
      unfolding calculateCoverage_def c Let_def m tie_percent by simp
  qed
  have s: "spec_coverage 23 40 0 = 58"
    by (simp add: spec_coverage_def)
  from c v s show ?thesis by simp
qed

section \<open>Properties of the documentation panel\<close>

lemma replace_newlines:
  "replace_from newline_pattern bol 0 s =
     concat (map (\<lambda>c. if c = CHR 0x0A then ''<br />'' else [c]) s)"
  by (induction s arbitrary: bol) (simp_all add: newline_pattern_def)

lemma formatContent_no_newline: "CHR 0x0A \<notin> set (formatContent text)"
  by (simp add: formatContent_def replace_all_def [of newline_pattern] replace_newlines)

text \<open>
  Claim C7. Rendering is deterministic. \<open>formatContent\<close> is a fixed sequence of pure
  replacements, a function of the text alone: it reads no clock, no random source and
  no state, and in the panel neither the language nor the file name enters the rendered
  text. Hence two renderings of the same content are the same text, byte for byte, and
  identical Markdown always displays identically.
\<close>

theorem formatContent_deterministic:
  "(t1 = t2 \<longrightarrow> formatContent t1 = formatContent t2)
   \<and> documentation_text (Str t1) language1 filename1 loading
       = documentation_text (Str t1) language2 filename2 loading
   \<and> (t1 \<noteq> [] \<longrightarrow> documentation_text (Str t1) language1 filename1 False
                      = Inr (DocHtml (formatContent t1)))"
  by (simp add: documentation_text_def)

theorem formatContent_deterministic_witness:
  "formatContent ''# Title'' = ''<h1 class=\"doc-h1\">Title</h1>''
   \<and> documentation_text (Str ''# Title'') (Str ''python'') (Str ''a.py'') False
       = documentation_text (Str ''# Title'') (Str ''java'') (Str ''B.java'') False
   \<and> documentation_text (Str ''# Title'') (Str ''python'') (Str ''a.py'') False
       = Inr (DocHtml ''<h1 class=\"doc-h1\">Title</h1>'')"
proof -
  have v: "formatContent ''# Title'' = ''<h1 class=\"doc-h1\">Title</h1>''"
    by code_simp
  note t = formatContent_deterministic [of "''# Title''" "''# Title''" "Str ''python''"
        "Str ''a.py''" False "Str ''java''" "Str ''B.java''"]
  from t have a: "documentation_text (Str ''# Title'') (Str ''python'') (Str ''a.py'') False
       = documentation_text (Str ''# Title'') (Str ''java'') (Str ''B.java'') False"
    by (elim conjE)
  from t have "''# Title'' \<noteq> [] \<longrightarrow>
      documentation_text (Str ''# Title'') (Str ''python'') (Str ''a.py'') False
       = Inr (DocHtml (formatContent ''# Title''))"
    by (elim conjE)
  then have c: "documentation_text (Str ''# Title'') (Str ''python'') (Str ''a.py'') False
       = Inr (DocHtml ''<h1 class=\"doc-h1\">Title</h1>'')"
    unfolding v by simp
  from v a c show ?thesis by blast
qed

end
